theory Spec2Isabelle
  imports Main "HOL-Library.AList"
begin

section \<open>Python values used by smart\_home\_system.py\<close>

text \<open>
  Device ids are the integers of the example usage, device types, statuses, times and
  actions are Python strings. \<open>str_int\<close> is Python's \<open>str\<close> on an \<open>int\<close>, which an
  f-string applies to \<open>device_id\<close> and \<open>temperature\<close>.
\<close>

function str_nat :: "nat \<Rightarrow> string" where
  "str_nat n =
     (if n < 10 then [''0123456789'' ! n]
      else str_nat (n div 10) @ [''0123456789'' ! (n mod 10)])"
  by pat_completeness auto
termination
  by (relation "measure (\<lambda>n. n)") auto

declare str_nat.simps [simp del]

definition str_int :: "int \<Rightarrow> string" where
  "str_int i = (if i < 0 then ''-'' @ str_nat (nat (- i)) else str_nat (nat i))"

text \<open>\<open>sep.join(xs)\<close> on a list of strings.\<close>

fun join :: "string \<Rightarrow> string list \<Rightarrow> string" where
  "join sep [] = []"
| "join sep [x] = x"
| "join sep (x # y # ys) = x @ sep @ join sep (y # ys)"

text \<open>The exceptions the program can raise, each with the text that identifies it:
  the message of a \<open>ValueError\<close>, the missing attribute of an \<open>AttributeError\<close>.\<close>

datatype error = ValueError string | AttributeError string

section \<open>Objects and the store\<close>

text \<open>
  Devices are mutable objects that the hub, a proxy and an observer can all refer to,
  so they live in a store and are named by references. An observer is compared by
  identity in \<open>list.remove\<close>: \<open>DeviceStatusObserver n r\<close> is the observer object
  number \<open>n\<close>, whose field \<open>device\<close> refers to the device at \<open>r\<close>.
\<close>

type_synonym ref = nat

datatype observer = DeviceStatusObserver (observer_ident: nat) (observer_device: ref)

text \<open>The classes \<open>Light\<close>, \<open>Thermostat\<close> and \<open>DoorLock\<close> with their fields;
  \<open>device_type\<close> is fixed by the class in each \<open>__init__\<close>.\<close>

datatype device =
    Light (device_id: int) (status: string) (observers: "observer list")
  | Thermostat (device_id: int) (temperature: int) (observers: "observer list")
  | DoorLock (device_id: int) (status: string) (observers: "observer list")

fun device_type :: "device \<Rightarrow> string" where
  "device_type (Light i st obs) = ''light''"
| "device_type (Thermostat i t obs) = ''thermostat''"
| "device_type (DoorLock i st obs) = ''door''"

text \<open>What a variable or a dictionary slot can hold: a device object, a
  \<open>DeviceProxy\<close> object (its only field, \<open>device\<close>, is set once), or \<open>None\<close>.\<close>

datatype pyobj = DeviceRef ref | DeviceProxy ref | PyNone

text \<open>The dictionaries appended to \<open>scheduled_tasks\<close> and \<open>automated_triggers\<close>.\<close>

record task =
  device :: int
  time :: string
  action :: string

record trigger =
  condition :: string
  trigger_action :: string

text \<open>What the program does that a caller can observe: a line printed, and a call
  \<open>observer.update(message)\<close>.\<close>

datatype event = Print string | Update observer string

text \<open>
  The state: the fields of the one \<open>SmartHomeHub\<close> (\<open>devices\<close> is a dictionary in
  insertion order; \<open>scheduled_tasks\<close> and \<open>automated_triggers\<close> refer to list
  objects), the stores of device objects and of list objects, the next unused device
  reference, and the events so far.
\<close>

record state =
  devices :: "(int \<times> pyobj) list"
  scheduled_tasks :: ref
  automated_triggers :: ref
  objects :: "ref \<Rightarrow> device"
  task_lists :: "ref \<Rightarrow> task list"
  trigger_lists :: "ref \<Rightarrow> trigger list"
  next_ref :: ref
  out :: "event list"

definition print :: "string \<Rightarrow> state \<Rightarrow> state" where
  "print line s = s\<lparr>out := out s @ [Print line]\<rparr>"

text \<open>\<open>SmartHomeHub.__init__\<close> in a program that has created nothing else: an empty
  dictionary and two empty lists.\<close>

definition SmartHomeHub :: state where
  "SmartHomeHub =
     \<lparr>devices = [], scheduled_tasks = 0, automated_triggers = 0,
      objects = (\<lambda>r. undefined), task_lists = (\<lambda>r. []), trigger_lists = (\<lambda>r. []),
      next_ref = 0, out = []\<rparr>"

section \<open>Observers and devices\<close>

text \<open>\<open>DeviceStatusObserver.update\<close> prints the id of the observer's own device.\<close>

fun update :: "observer \<Rightarrow> string \<Rightarrow> state \<Rightarrow> state" where
  "update (DeviceStatusObserver n r) message s =
     s\<lparr>out := out s @
        [Update (DeviceStatusObserver n r) message,
         Print (''Device '' @ str_int (device_id (objects s r)) @ '': '' @ message)]\<rparr>"

fun set_observers :: "observer list \<Rightarrow> device \<Rightarrow> device" where
  "set_observers obs (Light i st old) = Light i st obs"
| "set_observers obs (Thermostat i t old) = Thermostat i t obs"
| "set_observers obs (DoorLock i st old) = DoorLock i st obs"

definition add_observer :: "ref \<Rightarrow> observer \<Rightarrow> state \<Rightarrow> state" where
  "add_observer self observer s =
     s\<lparr>objects := (objects s)
        (self := set_observers (observers (objects s self) @ [observer]) (objects s self))\<rparr>"

text \<open>\<open>list.remove\<close> deletes the first equal element and raises \<open>ValueError\<close>
  when there is none; \<open>remove_observer\<close> does not catch it.\<close>

definition remove_observer :: "ref \<Rightarrow> observer \<Rightarrow> state \<Rightarrow> (error + unit) \<times> state" where
  "remove_observer self observer s =
     (if observer \<in> set (observers (objects s self))
      then (Inr (),
            s\<lparr>objects := (objects s)
               (self := set_observers (remove1 observer (observers (objects s self)))
                          (objects s self))\<rparr>)
      else (Inl (ValueError ''list.remove(x): x not in list''), s))"

fun notify_loop :: "observer list \<Rightarrow> string \<Rightarrow> state \<Rightarrow> state" where
  "notify_loop [] message s = s"
| "notify_loop (observer # rest) message s = notify_loop rest message (update observer message s)"

definition notify_observers :: "ref \<Rightarrow> string \<Rightarrow> state \<Rightarrow> state" where
  "notify_observers self message s = notify_loop (observers (objects s self)) message s"

text \<open>The mutators. Each is the method of one class: on an object of another class the
  attribute lookup fails, which is the \<open>AttributeError\<close> branch.\<close>

definition turn_on_method :: "ref \<Rightarrow> state \<Rightarrow> (error + unit) \<times> state" where
  "turn_on_method self s =
     (case objects s self of
        Light i st obs \<Rightarrow>
          (let s' = s\<lparr>objects := (objects s)(self := Light i ''on'' obs)\<rparr>
           in (Inr (), notify_observers self
                 (''Light is turned on ('' @ status (objects s' self) @ '')'') s'))
      | _ \<Rightarrow> (Inl (AttributeError ''turn_on''), s))"

definition turn_off_method :: "ref \<Rightarrow> state \<Rightarrow> (error + unit) \<times> state" where
  "turn_off_method self s =
     (case objects s self of
        Light i st obs \<Rightarrow>
          (let s' = s\<lparr>objects := (objects s)(self := Light i ''off'' obs)\<rparr>
           in (Inr (), notify_observers self
                 (''Light is turned off ('' @ status (objects s' self) @ '')'') s'))
      | _ \<Rightarrow> (Inl (AttributeError ''turn_off''), s))"

definition set_temperature_method :: "ref \<Rightarrow> int \<Rightarrow> state \<Rightarrow> (error + unit) \<times> state" where
  "set_temperature_method self t s =
     (case objects s self of
        Thermostat i old obs \<Rightarrow>
          (let s' = s\<lparr>objects := (objects s)(self := Thermostat i t obs)\<rparr>
           in (Inr (), notify_observers self
                 (''Thermostat temperature set to '' @ str_int (temperature (objects s' self))
                    @ '' degrees'') s'))
      | _ \<Rightarrow> (Inl (AttributeError ''set_temperature''), s))"

definition lock_method :: "ref \<Rightarrow> state \<Rightarrow> (error + unit) \<times> state" where
  "lock_method self s =
     (case objects s self of
        DoorLock i st obs \<Rightarrow>
          (Inr (), notify_observers self ''Door is locked''
                     (s\<lparr>objects := (objects s)(self := DoorLock i ''locked'' obs)\<rparr>))
      | _ \<Rightarrow> (Inl (AttributeError ''lock''), s))"

definition unlock_method :: "ref \<Rightarrow> state \<Rightarrow> (error + unit) \<times> state" where
  "unlock_method self s =
     (case objects s self of
        DoorLock i st obs \<Rightarrow>
          (Inr (), notify_observers self ''Door is unlocked''
                     (s\<lparr>objects := (objects s)(self := DoorLock i ''unlocked'' obs)\<rparr>))
      | _ \<Rightarrow> (Inl (AttributeError ''unlock''), s))"

fun device_status_report :: "device \<Rightarrow> string" where
  "device_status_report (Light i st obs) = ''Light '' @ str_int i @ '' is '' @ st @ ''.''"
| "device_status_report (Thermostat i t obs) =
     ''Thermostat is set to '' @ str_int t @ '' degrees.''"
| "device_status_report (DoorLock i st obs) = ''Door is '' @ st @ ''.''"

section \<open>DeviceProxy\<close>

text \<open>A proxy is given by the reference in its field \<open>device\<close>. \<open>turn_on\<close> and
  \<open>turn_off\<close> forward without a check; the other three test the class first.\<close>

definition DeviceProxy_turn_on :: "ref \<Rightarrow> state \<Rightarrow> (error + unit) \<times> state" where
  "DeviceProxy_turn_on dev s = turn_on_method dev s"

definition DeviceProxy_turn_off :: "ref \<Rightarrow> state \<Rightarrow> (error + unit) \<times> state" where
  "DeviceProxy_turn_off dev s = turn_off_method dev s"

definition DeviceProxy_set_temperature ::
  "ref \<Rightarrow> int \<Rightarrow> state \<Rightarrow> (error + unit) \<times> state" where
  "DeviceProxy_set_temperature dev t s =
     (case objects s dev of
        Thermostat i old obs \<Rightarrow> set_temperature_method dev t s
      | _ \<Rightarrow> (Inr (), print ''This device does not support temperature control.'' s))"

definition DeviceProxy_lock :: "ref \<Rightarrow> state \<Rightarrow> (error + unit) \<times> state" where
  "DeviceProxy_lock dev s =
     (case objects s dev of
        DoorLock i st obs \<Rightarrow> lock_method dev s
      | _ \<Rightarrow> (Inr (), print ''This device does not support locking.'' s))"

definition DeviceProxy_unlock :: "ref \<Rightarrow> state \<Rightarrow> (error + unit) \<times> state" where
  "DeviceProxy_unlock dev s =
     (case objects s dev of
        DoorLock i st obs \<Rightarrow> unlock_method dev s
      | _ \<Rightarrow> (Inr (), print ''This device does not support unlocking.'' s))"

definition DeviceProxy_status_report :: "ref \<Rightarrow> state \<Rightarrow> string" where
  "DeviceProxy_status_report dev s = device_status_report (objects s dev)"

section \<open>Calls on whatever a dictionary slot holds\<close>

text \<open>\<open>obj.turn_on()\<close>, \<open>obj.turn_off()\<close>, \<open>obj.status_report()\<close> and
  \<open>obj.device_type\<close> for a device, a proxy or \<open>None\<close>. A proxy has the three
  methods and no attribute \<open>device_type\<close>; \<open>None\<close> has none of them.\<close>

fun call_turn_on :: "pyobj \<Rightarrow> state \<Rightarrow> (error + unit) \<times> state" where
  "call_turn_on (DeviceRef r) s = turn_on_method r s"
| "call_turn_on (DeviceProxy r) s = DeviceProxy_turn_on r s"
| "call_turn_on PyNone s = (Inl (AttributeError ''turn_on''), s)"

fun call_turn_off :: "pyobj \<Rightarrow> state \<Rightarrow> (error + unit) \<times> state" where
  "call_turn_off (DeviceRef r) s = turn_off_method r s"
| "call_turn_off (DeviceProxy r) s = DeviceProxy_turn_off r s"
| "call_turn_off PyNone s = (Inl (AttributeError ''turn_off''), s)"

fun call_status_report :: "pyobj \<Rightarrow> state \<Rightarrow> error + string" where
  "call_status_report (DeviceRef r) s = Inr (device_status_report (objects s r))"
| "call_status_report (DeviceProxy r) s = Inr (DeviceProxy_status_report r s)"
| "call_status_report PyNone s = Inl (AttributeError ''status_report'')"

fun get_device_type :: "pyobj \<Rightarrow> state \<Rightarrow> error + string" where
  "get_device_type (DeviceRef r) s = Inr (device_type (objects s r))"
| "get_device_type (DeviceProxy r) s = Inl (AttributeError ''device_type'')"
| "get_device_type PyNone s = Inl (AttributeError ''device_type'')"

section \<open>SmartHomeHub\<close>

text \<open>Creating an object: it takes the next unused reference.\<close>

definition new_object :: "device \<Rightarrow> state \<Rightarrow> ref \<times> state" where
  "new_object d s = (next_ref s, s\<lparr>objects := (objects s)(next_ref s := d), next_ref := Suc (next_ref s)\<rparr>)"

text \<open>The last two statements of \<open>create_device\<close>: store the device under its id,
  return a proxy for it.\<close>

definition store_and_wrap :: "int \<Rightarrow> ref \<Rightarrow> state \<Rightarrow> (error + pyobj) \<times> state" where
  "store_and_wrap dev_id r s =
     (Inr (DeviceProxy r), s\<lparr>devices := AList.update dev_id (DeviceRef r) (devices s)\<rparr>)"

text \<open>\<open>create_device\<close>. The light branch does not read \<open>initial_status\<close>; the door
  branch calls nothing for a status other than \<open>locked\<close> and \<open>unlocked\<close>. A bare
  \<open>return\<close> returns \<open>None\<close>.\<close>

definition create_device ::
  "int \<Rightarrow> string \<Rightarrow> string option \<Rightarrow> int option \<Rightarrow> state \<Rightarrow> (error + pyobj) \<times> state" where
  "create_device dev_id dtype initial_status initial_temperature s =
     (if dev_id \<in> fst ` set (devices s)
      then (Inr PyNone, print (''Device with ID '' @ str_int dev_id @ '' already exists.'') s)
      else if dtype = ''light'' then
        (case new_object (Light dev_id ''off'' []) s of
           (r, s1) \<Rightarrow> store_and_wrap dev_id r s1)
      else if dtype = ''thermostat'' then
        (case new_object (Thermostat dev_id 70 []) s of
           (r, s1) \<Rightarrow>
             (case initial_temperature of
                None \<Rightarrow> store_and_wrap dev_id r s1
              | Some t \<Rightarrow>
                  (case set_temperature_method r t s1 of
                     (Inl e, s2) \<Rightarrow> (Inl e, s2)
                   | (Inr u, s2) \<Rightarrow> store_and_wrap dev_id r s2)))
      else if dtype = ''door'' then
        (case new_object (DoorLock dev_id ''locked'' []) s of
           (r, s1) \<Rightarrow>
             (if initial_status = Some ''locked'' then
                (case lock_method r s1 of
                   (Inl e, s2) \<Rightarrow> (Inl e, s2)
                 | (Inr u, s2) \<Rightarrow> store_and_wrap dev_id r s2)
              else if initial_status = Some ''unlocked'' then
                (case unlock_method r s1 of
                   (Inl e, s2) \<Rightarrow> (Inl e, s2)
                 | (Inr u, s2) \<Rightarrow> store_and_wrap dev_id r s2)
              else store_and_wrap dev_id r s1))
      else (Inl (ValueError ''Invalid device type''), s))"

definition turn_on :: "int \<Rightarrow> state \<Rightarrow> (error + unit) \<times> state" where
  "turn_on dev_id s =
     (case map_of (devices s) dev_id of
        Some obj \<Rightarrow> call_turn_on obj s
      | None \<Rightarrow> (Inr (), print (''Device with ID '' @ str_int dev_id @ '' not found.'') s))"

definition turn_off :: "int \<Rightarrow> state \<Rightarrow> (error + unit) \<times> state" where
  "turn_off dev_id s =
     (case map_of (devices s) dev_id of
        Some obj \<Rightarrow> call_turn_off obj s
      | None \<Rightarrow> (Inr (), print (''Device with ID '' @ str_int dev_id @ '' not found.'') s))"


definition add_trigger :: "string \<Rightarrow> string \<Rightarrow> state \<Rightarrow> state" where
  "add_trigger cond act s =
     print (''Automated Trigger: ['' @ cond @ ''] - '' @ act)
       (s\<lparr>trigger_lists := (trigger_lists s)
          (automated_triggers s := trigger_lists s (automated_triggers s) @
             [\<lparr>condition = cond, trigger_action = act\<rparr>])\<rparr>)"

text \<open>\<open>add_device\<close> stores what \<open>create_device\<close> returned under the same id, over
  the device that \<open>create_device\<close> stored there.\<close>

definition add_device ::
  "int \<Rightarrow> string \<Rightarrow> string option \<Rightarrow> int option \<Rightarrow> state \<Rightarrow> (error + unit) \<times> state" where
  "add_device dev_id dtype initial_status initial_temperature s =
     (if dev_id \<in> fst ` set (devices s)
      then (Inr (), print (''Device with ID '' @ str_int dev_id @ '' already exists.'') s)
      else
        (case create_device dev_id dtype initial_status initial_temperature s of
           (Inl e, s1) \<Rightarrow> (Inl e, s1)
         | (Inr obj, s1) \<Rightarrow>
             (Inr (),
              print (''Added new '' @ dtype @ '' with ID '' @ str_int dev_id @ ''.'')
                (s1\<lparr>devices := AList.update dev_id obj (devices s1)\<rparr>))))"

text \<open>\<open>remove_device\<close> deletes the entry before it reads \<open>device.device_type\<close>
  for the message.\<close>

definition remove_device :: "int \<Rightarrow> state \<Rightarrow> (error + unit) \<times> state" where
  "remove_device dev_id s =
     (case map_of (devices s) dev_id of
        Some obj \<Rightarrow>
          (let s1 = s\<lparr>devices := AList.delete dev_id (devices s)\<rparr>
           in (case get_device_type obj s1 of
                 Inl e \<Rightarrow> (Inl e, s1)
               | Inr ty \<Rightarrow>
                   (Inr (),
                    print (''Removed '' @ ty @ '' with ID '' @ str_int dev_id @ ''.'') s1)))
      | None \<Rightarrow> (Inr (), print (''Device with ID '' @ str_int dev_id @ '' not found.'') s))"

text \<open>The loop of \<open>status_report\<close> over \<open>self.devices.items()\<close>, then the join.\<close>

fun collect_reports :: "(int \<times> pyobj) list \<Rightarrow> state \<Rightarrow> error + string list" where
  "collect_reports [] s = Inr []"
| "collect_reports ((dev_id, obj) # rest) s =
     (case call_status_report obj s of
        Inl e \<Rightarrow> Inl e
      | Inr text \<Rightarrow>
          (case collect_reports rest s of
             Inl e \<Rightarrow> Inl e
           | Inr report \<Rightarrow> Inr (text # report)))"

definition status_report :: "state \<Rightarrow> error + string" where
  "status_report s =
     (case collect_reports (devices s) s of
        Inl e \<Rightarrow> Inl e
      | Inr report \<Rightarrow> Inr (join '' '' report))"

text \<open>The two accessors return the attribute, which is the list object itself.\<close>

definition get_scheduled_tasks :: "state \<Rightarrow> ref" where
  "get_scheduled_tasks s = scheduled_tasks s"

definition get_automated_triggers :: "state \<Rightarrow> ref" where
  "get_automated_triggers s = automated_triggers s"

text \<open>What a caller can do with a list it was handed: \<open>xs.append(x)\<close>.\<close>

definition tasks_append :: "ref \<Rightarrow> task \<Rightarrow> state \<Rightarrow> state" where
  "tasks_append xs x s = s\<lparr>task_lists := (task_lists s)(xs := task_lists s xs @ [x])\<rparr>"

definition triggers_append :: "ref \<Rightarrow> trigger \<Rightarrow> state \<Rightarrow> state" where
  "triggers_append xs x s = s\<lparr>trigger_lists := (trigger_lists s)(xs := trigger_lists s xs @ [x])\<rparr>"

section \<open>The scheduler\<close>






section \<open>Observations and example states\<close>

text \<open>The calls \<open>observer.update(message)\<close> among the events, in order, and the
  messages that one observer received.\<close>

fun updates_of :: "event list \<Rightarrow> (observer \<times> string) list" where
  "updates_of [] = []"
| "updates_of (Update ob m # es) = (ob, m) # updates_of es"
| "updates_of (Print line # es) = updates_of es"

definition received :: "observer \<Rightarrow> event list \<Rightarrow> string list" where
  "received ob es = map snd (filter (\<lambda>p. fst p = ob) (updates_of es))"

text \<open>The hub of the example usage after its first \<open>add_device\<close>, and after all
  three.\<close>

definition hub_with_light :: state where
  "hub_with_light = snd (add_device 1 ''light'' (Some ''off'') None SmartHomeHub)"

definition hub_with_three :: state where
  "hub_with_three =
     snd (add_device 3 ''door'' (Some ''locked'') None
       (snd (add_device 2 ''thermostat'' None (Some 70) hub_with_light)))"






section \<open>Evaluation lemmas\<close>

lemmas hub_defs =
  add_device_def create_device_def new_object_def store_and_wrap_def print_def
  turn_on_def turn_off_def remove_device_def status_report_def
  DeviceProxy_turn_on_def DeviceProxy_turn_off_def DeviceProxy_status_report_def
  turn_on_method_def turn_off_method_def set_temperature_method_def
  lock_method_def unlock_method_def notify_observers_def

lemma str_int_1: "str_int 1 = ''1''"
  by (simp add: str_int_def str_nat.simps)

lemma str_int_70: "str_int 70 = ''70''"
  by (simp add: str_int_def str_nat.simps)

lemma str_int_2: "str_int 2 = ''2''"
  by (simp add: str_int_def str_nat.simps)

lemma str_int_3: "str_int 3 = ''3''"
  by (simp add: str_int_def str_nat.simps)

lemma str_int_9: "str_int 9 = ''9''"
  by (simp add: str_int_def str_nat.simps)

lemmas str_int_evals = str_int_1 str_int_2 str_int_3 str_int_9 str_int_70

lemma hub_with_light_eval:
  "hub_with_light =
     \<lparr>devices = [(1, DeviceProxy 0)], scheduled_tasks = 0, automated_triggers = 0,
      objects = (\<lambda>r. undefined)(0 := Light 1 ''off'' []),
      task_lists = (\<lambda>r. []), trigger_lists = (\<lambda>r. []),
      next_ref = 1, out = [Print ''Added new light with ID 1.'']\<rparr>"
  by (simp add: hub_with_light_def SmartHomeHub_def hub_defs str_int_evals)

lemma hub_with_three_eval:
  "hub_with_three =
     \<lparr>devices = [(1, DeviceProxy 0), (2, DeviceProxy 1), (3, DeviceProxy 2)],
      scheduled_tasks = 0, automated_triggers = 0,
      objects = (\<lambda>r. undefined)
        (0 := Light 1 ''off'' [], 1 := Thermostat 2 70 [], 2 := DoorLock 3 ''locked'' []),
      task_lists = (\<lambda>r. []), trigger_lists = (\<lambda>r. []),
      next_ref = 3,
      out = [Print ''Added new light with ID 1.'', Print ''Added new thermostat with ID 2.'',
             Print ''Added new door with ID 3.'']\<rparr>"
  by (simp add: hub_with_three_def hub_with_light_eval hub_defs str_int_evals
      numeral_2_eq_2 numeral_3_eq_3)

section \<open>The registration scenario\<close>

text \<open>
  Claim C1. On a hub with no device yet, \<open>add_device\<close> of Light 1 (off),
  Thermostat 2 (70) and DoorLock 3 (locked), in that order, then \<open>turn_on(1)\<close>, all
  return normally, and \<open>status_report()\<close> then returns exactly
  \<open>Light 1 is on. Thermostat is set to 70 degrees. Door is locked.\<close>: the texts of
  the three devices in registration order, separated by one space.
\<close>

theorem scenario_status_report:
  assumes "devices s = []"
  shows "\<exists>s1 s2 s3 s4.
     add_device 1 ''light'' (Some ''off'') None s = (Inr (), s1) \<and>
     add_device 2 ''thermostat'' None (Some 70) s1 = (Inr (), s2) \<and>
     add_device 3 ''door'' (Some ''locked'') None s2 = (Inr (), s3) \<and>
     turn_on 1 s3 = (Inr (), s4) \<and>
     status_report s4 = Inr ''Light 1 is on. Thermostat is set to 70 degrees. Door is locked.''"
  using assms
  by (simp add: hub_defs str_int_1 str_int_70)

theorem scenario_status_report_witness:
  "devices SmartHomeHub = [] \<and> (\<exists>s1 s2 s3 s4.
     add_device 1 ''light'' (Some ''off'') None SmartHomeHub = (Inr (), s1) \<and>
     add_device 2 ''thermostat'' None (Some 70) s1 = (Inr (), s2) \<and>
     add_device 3 ''door'' (Some ''locked'') None s2 = (Inr (), s3) \<and>
     turn_on 1 s3 = (Inr (), s4) \<and>
     status_report s4 = Inr ''Light 1 is on. Thermostat is set to 70 degrees. Door is locked.'')"
proof -
  have h: "devices SmartHomeHub = []"
    by (simp add: SmartHomeHub_def)
  from scenario_status_report [OF h] h show ?thesis
    by blast
qed

section \<open>Notification\<close>

lemma updates_of_append: "updates_of (xs @ ys) = updates_of xs @ updates_of ys"
  by (induction xs rule: updates_of.induct) simp_all

lemma update_objects: "objects (update ob m s) = objects s"
  by (cases ob) simp

lemma update_updates: "updates_of (out (update ob m s)) = updates_of (out s) @ [(ob, m)]"
  by (cases ob) (simp add: updates_of_append)

lemma notify_loop_objects: "objects (notify_loop obs m s) = objects s"
  by (induction obs arbitrary: s) (simp_all add: update_objects)

lemma notify_loop_updates:
  "updates_of (out (notify_loop obs m s)) = updates_of (out s) @ map (\<lambda>ob. (ob, m)) obs"
  by (induction obs arbitrary: s) (simp_all add: update_updates)

lemma received_map:
  "map snd (filter (\<lambda>p. fst p = ob) (map (\<lambda>x. (x, m)) obs)) = replicate (count_list obs ob) m"
  by (induction obs) auto

text \<open>
  Claim C4. On a Light with subscriber sequence \<open>obs\<close>, \<open>turn_on()\<close> then
  \<open>turn_off()\<close> both return normally. The state that \<open>turn_on\<close> returns already has
  the status \<open>on\<close> and one more \<open>update\<close> call per entry of \<open>obs\<close>, in subscription
  order, with the message of the on state; the state that \<open>turn_off\<close> returns has the
  status \<open>off\<close> and one more call per entry with the message of the off state. So
  each observer receives, per subscription, exactly the two messages, on before off.
\<close>

theorem light_on_off_notifications:
  assumes "objects s self = Light i st obs"
  shows "\<exists>s1 s2.
      turn_on_method self s = (Inr (), s1)
    \<and> objects s1 self = Light i ''on'' obs
    \<and> updates_of (out s1) =
        updates_of (out s) @ map (\<lambda>ob. (ob, ''Light is turned on (on)'')) obs
    \<and> turn_off_method self s1 = (Inr (), s2)
    \<and> objects s2 self = Light i ''off'' obs
    \<and> updates_of (out s2) =
        updates_of (out s1) @ map (\<lambda>ob. (ob, ''Light is turned off (off)'')) obs
    \<and> (\<forall>ob. received ob (out s2) =
          received ob (out s)
            @ replicate (count_list obs ob) ''Light is turned on (on)''
            @ replicate (count_list obs ob) ''Light is turned off (off)'')"
  using assms
  by (simp add: turn_on_method_def turn_off_method_def notify_observers_def
      notify_loop_objects notify_loop_updates received_def received_map)

theorem light_on_off_notifications_witness:
  "objects (add_observer 0 (DeviceStatusObserver 8 0)
             (add_observer 0 (DeviceStatusObserver 7 0) hub_with_light)) 0
     = Light 1 ''off'' [DeviceStatusObserver 7 0, DeviceStatusObserver 8 0]
   \<and> (\<exists>s1 s2.
      turn_on_method 0 (add_observer 0 (DeviceStatusObserver 8 0)
             (add_observer 0 (DeviceStatusObserver 7 0) hub_with_light)) = (Inr (), s1)
    \<and> objects s1 0 = Light 1 ''on'' [DeviceStatusObserver 7 0, DeviceStatusObserver 8 0]
    \<and> updates_of (out s1) =
        [(DeviceStatusObserver 7 0, ''Light is turned on (on)''),
         (DeviceStatusObserver 8 0, ''Light is turned on (on)'')]
    \<and> turn_off_method 0 s1 = (Inr (), s2)
    \<and> objects s2 0 = Light 1 ''off'' [DeviceStatusObserver 7 0, DeviceStatusObserver 8 0]
    \<and> updates_of (out s2) =
        [(DeviceStatusObserver 7 0, ''Light is turned on (on)''),
         (DeviceStatusObserver 8 0, ''Light is turned on (on)''),
         (DeviceStatusObserver 7 0, ''Light is turned off (off)''),
         (DeviceStatusObserver 8 0, ''Light is turned off (off)'')]
    \<and> received (DeviceStatusObserver 8 0) (out s2) =
        [''Light is turned on (on)'', ''Light is turned off (off)''])"
proof -
  let ?s = "add_observer 0 (DeviceStatusObserver 8 0)
              (add_observer 0 (DeviceStatusObserver 7 0) hub_with_light)"
  have h: "objects ?s 0 = Light 1 ''off'' [DeviceStatusObserver 7 0, DeviceStatusObserver 8 0]"
    by (simp add: add_observer_def hub_with_light_eval)
  have o: "updates_of (out ?s) = []"
    by (simp add: add_observer_def hub_with_light_eval)
  have r: "received (DeviceStatusObserver 8 0) (out ?s) = []"
    using o by (simp add: received_def)
  from light_on_off_notifications [OF h] obtain s1 s2 where
    a: "turn_on_method 0 ?s = (Inr (), s1)"
      "objects s1 0 = Light 1 ''on'' [DeviceStatusObserver 7 0, DeviceStatusObserver 8 0]"
      "updates_of (out s1) = updates_of (out ?s) @
         map (\<lambda>ob. (ob, ''Light is turned on (on)''))
           [DeviceStatusObserver 7 0, DeviceStatusObserver 8 0]"
      "turn_off_method 0 s1 = (Inr (), s2)"
      "objects s2 0 = Light 1 ''off'' [DeviceStatusObserver 7 0, DeviceStatusObserver 8 0]"
      "updates_of (out s2) = updates_of (out s1) @
         map (\<lambda>ob. (ob, ''Light is turned off (off)''))
           [DeviceStatusObserver 7 0, DeviceStatusObserver 8 0]"
      "\<forall>ob. received ob (out s2) = received ob (out ?s)
         @ replicate (count_list [DeviceStatusObserver 7 0, DeviceStatusObserver 8 0] ob)
             ''Light is turned on (on)''
         @ replicate (count_list [DeviceStatusObserver 7 0, DeviceStatusObserver 8 0] ob)
             ''Light is turned off (off)''"
    by blast
  from a(7) [rule_format, of "DeviceStatusObserver 8 0"] r
  have "received (DeviceStatusObserver 8 0) (out s2) =
      [''Light is turned on (on)'', ''Light is turned off (off)'']"
    by simp
  with h a(1-6) o show ?thesis
    by simp
qed

section \<open>The proxy on a Light\<close>

text \<open>
  Claim C5. On a proxy that wraps a Light, \<open>set_temperature(t)\<close> for any \<open>t\<close>,
  \<open>lock()\<close> and \<open>unlock()\<close> return normally after printing that the device does
  not support the operation; nothing else in the state changes, so the Light keeps its
  status and no observer is called.
\<close>

theorem proxy_on_light_rejects:
  assumes "objects s dev = Light i st obs"
  shows "DeviceProxy_set_temperature dev t s =
           (Inr (),
            s\<lparr>out := out s @ [Print ''This device does not support temperature control.'']\<rparr>)
       \<and> DeviceProxy_lock dev s =
           (Inr (), s\<lparr>out := out s @ [Print ''This device does not support locking.'']\<rparr>)
       \<and> DeviceProxy_unlock dev s =
           (Inr (), s\<lparr>out := out s @ [Print ''This device does not support unlocking.'']\<rparr>)"
  using assms
  by (simp add: DeviceProxy_set_temperature_def DeviceProxy_lock_def DeviceProxy_unlock_def
      print_def)

theorem proxy_on_light_rejects_witness:
  "objects hub_with_light 0 = Light 1 ''off'' []
   \<and> DeviceProxy_set_temperature 0 75 hub_with_light =
       (Inr (),
        hub_with_light\<lparr>out := out hub_with_light @
          [Print ''This device does not support temperature control.'']\<rparr>)
   \<and> DeviceProxy_lock 0 hub_with_light =
       (Inr (),
        hub_with_light\<lparr>out := out hub_with_light @
          [Print ''This device does not support locking.'']\<rparr>)
   \<and> DeviceProxy_unlock 0 hub_with_light =
       (Inr (),
        hub_with_light\<lparr>out := out hub_with_light @
          [Print ''This device does not support unlocking.'']\<rparr>)"
proof -
  have h: "objects hub_with_light 0 = Light 1 ''off'' []"
    by (simp add: hub_with_light_eval)
  from proxy_on_light_rejects [OF h, of 75] h show ?thesis
    by blast
qed

section \<open>Duplicate ids\<close>

text \<open>
  Claim C6. When the id is already a key of the device dictionary, \<open>create_device\<close>
  and \<open>add_device\<close> print that the device already exists and return \<open>None\<close>: no
  proxy is returned, no object is created, and the state is the old one but for the
  printed line, so the dictionary and every device are as before.
\<close>

theorem duplicate_id_rejected:
  assumes "dev_id \<in> fst ` set (devices s)"
  shows "create_device dev_id dtype initial_status initial_temperature s =
           (Inr PyNone,
            s\<lparr>out := out s @
              [Print (''Device with ID '' @ str_int dev_id @ '' already exists.'')]\<rparr>)
       \<and> add_device dev_id dtype initial_status initial_temperature s =
           (Inr (),
            s\<lparr>out := out s @
              [Print (''Device with ID '' @ str_int dev_id @ '' already exists.'')]\<rparr>)"
  using assms
  by (simp add: create_device_def add_device_def print_def)

theorem duplicate_id_rejected_witness:
  "1 \<in> fst ` set (devices hub_with_light)
   \<and> create_device 1 ''door'' (Some ''unlocked'') None hub_with_light =
       (Inr PyNone,
        hub_with_light\<lparr>out := out hub_with_light @
          [Print ''Device with ID 1 already exists.'']\<rparr>)
   \<and> add_device 1 ''door'' (Some ''unlocked'') None hub_with_light =
       (Inr (),
        hub_with_light\<lparr>out := out hub_with_light @
          [Print ''Device with ID 1 already exists.'']\<rparr>)"
proof -
  have h: "1 \<in> fst ` set (devices hub_with_light)"
    by (simp add: hub_with_light_eval)
  from duplicate_id_rejected [OF h, of "''door''" "Some ''unlocked''" None] h show ?thesis
    by (simp add: str_int_1)
qed

section \<open>What \<open>add_device\<close> stores\<close>

text \<open>
  Claim C3. For an id that is not yet a key and one of the three device types,
  \<open>create_device\<close> stores the new device object under the id and returns a proxy for
  it; \<open>add_device\<close> returns normally and leaves the id bound to that proxy instead.
  \<open>remove_device\<close> of the id then deletes the entry and raises \<open>AttributeError\<close>
  for \<open>device_type\<close>: the state it leaves differs from the one before only in the
  dictionary, so no \<open>Removed\<close> line is printed.
\<close>

theorem add_device_stores_proxy:
  assumes "dev_id \<notin> fst ` set (devices s)"
    and "dtype = ''light'' \<or> dtype = ''thermostat'' \<or> dtype = ''door''"
  shows "\<exists>s1 s2.
      create_device dev_id dtype initial_status initial_temperature s
        = (Inr (DeviceProxy (next_ref s)), s1)
    \<and> map_of (devices s1) dev_id = Some (DeviceRef (next_ref s))
    \<and> add_device dev_id dtype initial_status initial_temperature s = (Inr (), s2)
    \<and> map_of (devices s2) dev_id = Some (DeviceProxy (next_ref s))
    \<and> remove_device dev_id s2
        = (Inl (AttributeError ''device_type''),
           s2\<lparr>devices := AList.delete dev_id (devices s2)\<rparr>)
    \<and> map_of (AList.delete dev_id (devices s2)) dev_id = None"
  using assms
  by (cases initial_temperature) (auto simp add: hub_defs update_conv' delete_conv')

theorem add_device_stores_proxy_witness:
  "2 \<notin> fst ` set (devices hub_with_light)
   \<and> (\<exists>s1 s2.
      create_device 2 ''thermostat'' None (Some 70) hub_with_light = (Inr (DeviceProxy 1), s1)
    \<and> map_of (devices s1) 2 = Some (DeviceRef 1)
    \<and> add_device 2 ''thermostat'' None (Some 70) hub_with_light = (Inr (), s2)
    \<and> map_of (devices s2) 2 = Some (DeviceProxy 1)
    \<and> remove_device 2 s2
        = (Inl (AttributeError ''device_type''),
           s2\<lparr>devices := AList.delete 2 (devices s2)\<rparr>)
    \<and> map_of (AList.delete 2 (devices s2)) 2 = None)"
proof -
  have h: "2 \<notin> fst ` set (devices hub_with_light)"
    by (simp add: hub_with_light_eval)
  have n: "next_ref hub_with_light = 1"
    by (simp add: hub_with_light_eval)
  have t: "''thermostat'' = ''light'' \<or> ''thermostat'' = ''thermostat'' \<or> ''thermostat'' = ''door''"
    by simp
  from add_device_stores_proxy [OF h t, of None "Some 70"] h show ?thesis
    unfolding n by blast
qed

section \<open>Removing a device\<close>

lemma collect_reports_objects:
  "objects s' = objects s \<Longrightarrow> collect_reports xs s' = collect_reports xs s"
proof (induction xs)
  case Nil
  then show ?case by simp
next
  case (Cons p xs)
  obtain k obj where p: "p = (k, obj)" by (cases p)
  have "call_status_report obj s' = call_status_report obj s"
    using Cons.prems by (cases obj) (simp_all add: DeviceProxy_status_report_def)
  with Cons.IH [OF Cons.prems] p show ?case by (simp split: sum.splits)
qed

lemma collect_reports_append:
  "collect_reports (xs @ ys) s = Inr ts \<Longrightarrow>
   \<exists>a b. collect_reports xs s = Inr a \<and> collect_reports ys s = Inr b
     \<and> ts = a @ b \<and> length a = length xs"
proof (induction xs arbitrary: ts)
  case Nil
  then show ?case by simp
next
  case (Cons p xs)
  obtain k obj where p: "p = (k, obj)" by (cases p)
  from Cons.prems p obtain t r where t: "call_status_report obj s = Inr t"
    and r: "collect_reports (xs @ ys) s = Inr r" and ts: "ts = t # r"
    by (auto split: sum.splits)
  from Cons.IH [OF r] obtain a b where
    "collect_reports xs s = Inr a" "collect_reports ys s = Inr b"
    "r = a @ b" "length a = length xs"
    by blast
  with p t ts show ?case by simp
qed

lemma collect_reports_append_Inr:
  "collect_reports xs s = Inr a \<Longrightarrow> collect_reports ys s = Inr b \<Longrightarrow>
   collect_reports (xs @ ys) s = Inr (a @ b)"
proof (induction xs arbitrary: a)
  case Nil
  then show ?case by simp
next
  case (Cons p xs)
  obtain k obj where p: "p = (k, obj)" by (cases p)
  from Cons.prems(1) p obtain t r where t: "call_status_report obj s = Inr t"
    and r: "collect_reports xs s = Inr r" and a: "a = t # r"
    by (auto split: sum.splits)
  from Cons.IH [OF r Cons.prems(2)] p t a show ?case by simp
qed

lemma delete_middle:
  "k \<notin> fst ` set pre \<Longrightarrow> k \<notin> fst ` set post \<Longrightarrow>
   AList.delete k (pre @ (k, v) # post) = pre @ post"
  by (induction pre) auto

lemma remove_device_present:
  assumes "devices s = pre @ (dev_id, obj) # post" "distinct (map fst (devices s))"
  shows "devices (snd (remove_device dev_id s)) = pre @ post"
    and "objects (snd (remove_device dev_id s)) = objects s"
proof -
  from assms have k: "dev_id \<notin> fst ` set pre" "dev_id \<notin> fst ` set post"
    by auto
  have "map_of pre dev_id = None"
    using k(1) by (simp add: map_of_eq_None_iff)
  then have m: "map_of (devices s) dev_id = Some obj"
    using assms(1) by (simp add: map_add_def)
  have d: "AList.delete dev_id (devices s) = pre @ post"
    using delete_middle [OF k] assms(1) by simp
  show "devices (snd (remove_device dev_id s)) = pre @ post"
    using m d by (cases obj) (simp_all add: remove_device_def print_def)
  show "objects (snd (remove_device dev_id s)) = objects s"
    using m by (cases obj) (simp_all add: remove_device_def print_def)
qed

text \<open>
  The count and the report. \<open>remove_device\<close> of an id that is not a key prints that the
  device was not found and changes nothing else, so the number of devices is the same. For an id
  that is a key of the dictionary (its keys are distinct), the entry is deleted and the
  others stay in order, so the number of devices goes down by exactly one; and where
  \<open>status_report()\<close> joined the texts \<open>texts\<close> before, it afterwards joins the same
  texts without the one at the position of the removed device.
\<close>

lemma remove_device_count_and_report:
  "(dev_id \<notin> fst ` set (devices s) \<longrightarrow>
      remove_device dev_id s =
        (Inr (),
         s\<lparr>out := out s @ [Print (''Device with ID '' @ str_int dev_id @ '' not found.'')]\<rparr>)
    \<and> length (devices (snd (remove_device dev_id s))) = length (devices s))
 \<and> (devices s = pre @ (dev_id, obj) # post \<and> distinct (map fst (devices s))
      \<and> collect_reports (devices s) s = Inr texts \<longrightarrow>
      devices (snd (remove_device dev_id s)) = pre @ post
    \<and> length (devices (snd (remove_device dev_id s))) + 1 = length (devices s)
    \<and> status_report s = Inr (join '' '' texts)
    \<and> status_report (snd (remove_device dev_id s)) =
        Inr (join '' '' (take (length pre) texts @ drop (Suc (length pre)) texts)))"
proof (intro conjI impI)
  assume "dev_id \<notin> fst ` set (devices s)"
  then have "map_of (devices s) dev_id = None"
    by (simp add: map_of_eq_None_iff)
  then show r: "remove_device dev_id s =
      (Inr (),
       s\<lparr>out := out s @ [Print (''Device with ID '' @ str_int dev_id @ '' not found.'')]\<rparr>)"
    by (simp add: remove_device_def print_def)
  show "length (devices (snd (remove_device dev_id s))) = length (devices s)"
    by (simp add: r)
next
  assume "devices s = pre @ (dev_id, obj) # post \<and> distinct (map fst (devices s))
      \<and> collect_reports (devices s) s = Inr texts"
  then have d: "devices s = pre @ (dev_id, obj) # post"
    and k: "distinct (map fst (devices s))"
    and c: "collect_reports (devices s) s = Inr texts"
    by blast+
  let ?s' = "snd (remove_device dev_id s)"
  show dv: "devices ?s' = pre @ post"
    by (rule remove_device_present(1) [OF d k])
  show "length (devices ?s') + 1 = length (devices s)"
    by (simp add: dv d)
  show "status_report s = Inr (join '' '' texts)"
    by (simp add: status_report_def c)
  from c d obtain a b where ab: "collect_reports pre s = Inr a"
    "collect_reports ((dev_id, obj) # post) s = Inr b" "texts = a @ b" "length a = length pre"
    using collect_reports_append [of pre "(dev_id, obj) # post" s texts] by auto
  from ab(2) obtain t r where tr: "b = t # r" "collect_reports post s = Inr r"
    by (auto split: sum.splits)
  have "collect_reports (devices ?s') ?s' = collect_reports (pre @ post) s"
    using collect_reports_objects [OF remove_device_present(2) [OF d k]] dv by simp
  also have "\<dots> = Inr (a @ r)"
    by (rule collect_reports_append_Inr [OF ab(1) tr(2)])
  finally show "status_report ?s' =
      Inr (join '' '' (take (length pre) texts @ drop (Suc (length pre)) texts))"
    using ab(3,4) tr(1) by (simp add: status_report_def)
qed

text \<open>
  Claim C7, case by case. \<open>remove_device\<close> of an id that is not a key prints that the
  device was not found, returns, and changes nothing else. For an id bound to a device
  object, as \<open>create_device\<close> leaves it, the entry is deleted and the call returns
  after printing the \<open>Removed\<close> line. For an id bound to a proxy, as \<open>add_device\<close>
  leaves it, the entry is deleted and the call raises \<open>AttributeError\<close> for
  \<open>device_type\<close> instead of returning; the same holds for a slot holding \<open>None\<close>.
\<close>

theorem remove_device_by_case:
  "(map_of (devices s) dev_id = None \<longrightarrow>
      remove_device dev_id s =
        (Inr (),
         s\<lparr>out := out s @ [Print (''Device with ID '' @ str_int dev_id @ '' not found.'')]\<rparr>))
 \<and> (map_of (devices s) dev_id = Some (DeviceRef r) \<longrightarrow>
      remove_device dev_id s =
        (Inr (),
         s\<lparr>devices := AList.delete dev_id (devices s),
           out := out s @
             [Print (''Removed '' @ device_type (objects s r) @ '' with ID '' @ str_int dev_id
                       @ ''.'')]\<rparr>))
 \<and> (map_of (devices s) dev_id = Some (DeviceProxy r) \<or> map_of (devices s) dev_id = Some PyNone
      \<longrightarrow>
      remove_device dev_id s =
        (Inl (AttributeError ''device_type''),
         s\<lparr>devices := AList.delete dev_id (devices s)\<rparr>))"
  by (auto simp add: remove_device_def print_def)

theorem remove_device_by_case_witness:
  "map_of (devices hub_with_three) 9 = None
   \<and> remove_device 9 hub_with_three =
       (Inr (),
        hub_with_three\<lparr>out := out hub_with_three @ [Print ''Device with ID 9 not found.'']\<rparr>)
   \<and> map_of (devices (snd (create_device 1 ''light'' None None SmartHomeHub))) 1
       = Some (DeviceRef 0)
   \<and> remove_device 1 (snd (create_device 1 ''light'' None None SmartHomeHub)) =
       (Inr (),
        (snd (create_device 1 ''light'' None None SmartHomeHub))
          \<lparr>devices := [], out := [Print ''Removed light with ID 1.'']\<rparr>)
   \<and> map_of (devices hub_with_three) 2 = Some (DeviceProxy 1)
   \<and> remove_device 2 hub_with_three =
       (Inl (AttributeError ''device_type''),
        hub_with_three\<lparr>devices := [(1, DeviceProxy 0), (3, DeviceProxy 2)]\<rparr>)"
proof -
  let ?c = "snd (create_device 1 ''light'' None None SmartHomeHub)"
  have a: "map_of (devices hub_with_three) 9 = None"
    by (simp add: hub_with_three_eval)
  have b: "map_of (devices ?c) 1 = Some (DeviceRef 0)"
    by (simp add: hub_defs SmartHomeHub_def)
  have b1: "AList.delete 1 (devices ?c) = []" "out ?c = []"
    "device_type (objects ?c 0) = ''light''"
    by (simp_all add: hub_defs SmartHomeHub_def)
  have c: "map_of (devices hub_with_three) 2 = Some (DeviceProxy 1)"
    by (simp add: hub_with_three_eval)
  have c1: "AList.delete 2 (devices hub_with_three) = [(1, DeviceProxy 0), (3, DeviceProxy 2)]"
    by (simp add: hub_with_three_eval)
  from remove_device_by_case [of hub_with_three 9] a
  have ra: "remove_device 9 hub_with_three =
      (Inr (),
       hub_with_three\<lparr>out := out hub_with_three @ [Print ''Device with ID 9 not found.'']\<rparr>)"
    by (simp add: str_int_evals)
  from remove_device_by_case [of ?c 1 0] b
  have rb: "remove_device 1 ?c =
      (Inr (), ?c\<lparr>devices := [], out := [Print ''Removed light with ID 1.'']\<rparr>)"
    by (simp add: b1 str_int_evals)
  from remove_device_by_case [of hub_with_three 2 1] c
  have rc: "remove_device 2 hub_with_three =
      (Inl (AttributeError ''device_type''),
       hub_with_three\<lparr>devices := [(1, DeviceProxy 0), (3, DeviceProxy 2)]\<rparr>)"
    by (simp add: c1)
  from a ra b rb c rc show ?thesis
    by blast
qed

section \<open>Unsubscribing\<close>

text \<open>
  Claim C8 as stated, that unsubscribing an observer that is not subscribed is reported
  without aborting the caller, fails on the Light of \<open>hub_with_light\<close>, which has no
  subscriber: \<open>remove_observer\<close> raises \<open>ValueError\<close>.
\<close>

theorem remove_observer_not_reported:
  "observers (objects hub_with_light 0) = []
   \<and> fst (remove_observer 0 (DeviceStatusObserver 7 0) hub_with_light) =
       Inl (ValueError ''list.remove(x): x not in list'')"
  by (simp add: remove_observer_def hub_with_light_eval)

text \<open>
  Claim C8, amended. For every device and every observer that is not in the device's
  subscriber sequence, \<open>remove_observer\<close> raises \<open>ValueError\<close> to its caller and
  leaves the state, and so the subscriber sequence, unchanged; nothing is printed.
\<close>

theorem remove_absent_observer_raises:
  assumes "ob \<notin> set (observers (objects s self))"
  shows "remove_observer self ob s = (Inl (ValueError ''list.remove(x): x not in list''), s)"
  using assms
  by (simp add: remove_observer_def)

theorem remove_absent_observer_raises_witness:
  "DeviceStatusObserver 8 0 \<notin>
     set (observers (objects (add_observer 0 (DeviceStatusObserver 7 0) hub_with_light) 0))
   \<and> remove_observer 0 (DeviceStatusObserver 8 0)
       (add_observer 0 (DeviceStatusObserver 7 0) hub_with_light) =
       (Inl (ValueError ''list.remove(x): x not in list''),
        add_observer 0 (DeviceStatusObserver 7 0) hub_with_light)"
proof -
  have h: "DeviceStatusObserver 8 0 \<notin>
     set (observers (objects (add_observer 0 (DeviceStatusObserver 7 0) hub_with_light) 0))"
    by (simp add: add_observer_def hub_with_light_eval)
  from remove_absent_observer_raises [OF h] h show ?thesis
    by blast
qed

section \<open>Initial states\<close>

text \<open>What \<open>create_device\<close> does with the initial state, for an id that is not yet
  a key: the temperature and the two door statuses reach the device, and a light is
  off whatever \<open>initial_status\<close> is.\<close>

lemma create_device_initial_state:
  assumes "dev_id \<notin> fst ` set (devices s)"
  shows "\<exists>s1. create_device dev_id ''thermostat'' initial_status (Some t) s
               = (Inr (DeviceProxy (next_ref s)), s1)
          \<and> call_status_report (DeviceProxy (next_ref s)) s1
               = Inr (''Thermostat is set to '' @ str_int t @ '' degrees.'')"
    and "\<exists>s1. create_device dev_id ''door'' (Some ''locked'') initial_temperature s
               = (Inr (DeviceProxy (next_ref s)), s1)
          \<and> call_status_report (DeviceProxy (next_ref s)) s1 = Inr ''Door is locked.''"
    and "\<exists>s1. create_device dev_id ''door'' (Some ''unlocked'') initial_temperature s
               = (Inr (DeviceProxy (next_ref s)), s1)
          \<and> call_status_report (DeviceProxy (next_ref s)) s1 = Inr ''Door is unlocked.''"
    and "\<exists>s1. create_device dev_id ''light'' initial_status initial_temperature s
               = (Inr (DeviceProxy (next_ref s)), s1)
          \<and> call_status_report (DeviceProxy (next_ref s)) s1
               = Inr (''Light '' @ str_int dev_id @ '' is off.'')"
  using assms
  by (simp_all add: hub_defs)

text \<open>
  Claim C2 at \<open>create_device(1, "light", initial_status="on")\<close> on the new hub: the
  call returns a proxy, and both the proxy's and the hub's \<open>status_report()\<close> say that
  the light is off.
\<close>

theorem create_light_on_reports_off:
  "fst (create_device 1 ''light'' (Some ''on'') None SmartHomeHub) = Inr (DeviceProxy 0)
   \<and> call_status_report (DeviceProxy 0)
        (snd (create_device 1 ''light'' (Some ''on'') None SmartHomeHub))
       = Inr ''Light 1 is off.''
   \<and> status_report (snd (create_device 1 ''light'' (Some ''on'') None SmartHomeHub))
       = Inr ''Light 1 is off.''"
  by (simp add: hub_defs SmartHomeHub_def str_int_1)

section \<open>The accessors\<close>

text \<open>
  Claim C10 as stated, that changing the sequence returned by \<open>get_scheduled_tasks()\<close>
  leaves the stored sequence as it was, fails on the new hub: after an \<open>append\<close> to the
  returned list the hub's list of scheduled tasks is no longer empty.
\<close>

theorem returned_tasks_not_a_copy:
  "task_lists SmartHomeHub (scheduled_tasks SmartHomeHub) = []
   \<and> task_lists
       (tasks_append (get_scheduled_tasks SmartHomeHub)
          \<lparr>device = 2, time = ''06:00'', action = ''turn_on(1)''\<rparr> SmartHomeHub)
       (scheduled_tasks SmartHomeHub)
     = [\<lparr>device = 2, time = ''06:00'', action = ''turn_on(1)''\<rparr>]"
  by (simp add: tasks_append_def get_scheduled_tasks_def SmartHomeHub_def)

text \<open>
  Claim C10, amended. \<open>get_scheduled_tasks()\<close> and \<open>get_automated_triggers()\<close>
  return the stored list objects themselves: in every state, an element appended to the
  returned sequence is appended to the hub's stored sequence, and the hub still refers
  to the same list.
\<close>

theorem accessors_return_stored_lists:
  "get_scheduled_tasks s = scheduled_tasks s
   \<and> scheduled_tasks (tasks_append (get_scheduled_tasks s) x s) = scheduled_tasks s
   \<and> task_lists (tasks_append (get_scheduled_tasks s) x s) (scheduled_tasks s)
       = task_lists s (scheduled_tasks s) @ [x]
   \<and> get_automated_triggers s = automated_triggers s
   \<and> automated_triggers (triggers_append (get_automated_triggers s) y s) = automated_triggers s
   \<and> trigger_lists (triggers_append (get_automated_triggers s) y s) (automated_triggers s)
       = trigger_lists s (automated_triggers s) @ [y]"
  by (simp add: get_scheduled_tasks_def get_automated_triggers_def tasks_append_def
      triggers_append_def)

section \<open>Dispatch of scheduled tasks\<close>














end
